theory Spec2Isabelle
  imports Main "HOL-Library.Word" "HOL-Library.Char_ord" "HOL-Library.List_Lexorder"
begin

section \<open>Go values, JSON documents and errors\<close>

text \<open>
  A value of Go's \<^verbatim>\<open>interface{}\<close>. \<open>GoNil\<close> is the nil interface. Maps are association
  lists in the order of the source literal (keys of a literal are distinct); the static
  element type of a Go map or slice (\<^verbatim>\<open>map[string]string\<close>, \<^verbatim>\<open>[]string\<close>) is not tracked.
  \<open>GoFloat64 n\<close> is the \<^verbatim>\<open>float64\<close> that holds the integer \<open>n\<close>, which is what
  \<^verbatim>\<open>encoding/json\<close> produces for the number literal \<open>n\<close>.
\<close>

datatype any =
    GoNil
  | GoBool bool
  | GoFloat64 int
  | GoString string
  | GoSlice "any list"
  | GoMap "(string \<times> any) list"

text \<open>A JSON document as a tree; an object keeps its members in document order.\<close>

datatype json =
    JNull
  | JBool bool
  | JNumber int
  | JString string
  | JArray "json list"
  | JObject "(string \<times> json) list"

text \<open>
  \<^verbatim>\<open>json.RawMessage\<close> holds bytes. The model keeps what \<^verbatim>\<open>json.Unmarshal\<close> sees in them:
  either no JSON value at all (with the text of the syntax error it reports), or one
  document. The nil message (a field that was absent) is empty input.
\<close>

datatype RawMessage = Malformed string | Document json

definition nil_RawMessage :: RawMessage where
  "nil_RawMessage = Malformed ''unexpected end of JSON input''"

text \<open>
  Go's \<^verbatim>\<open>error\<close> values and their \<^verbatim>\<open>Error()\<close> text. \<open>Errorf\<close> is an error made with a
  text (\<^verbatim>\<open>fmt.Errorf\<close>, or an error of the surroundings); the other two are the errors of
  \<^verbatim>\<open>encoding/json\<close>, a type error with its fields Value, Struct, Field and Type.
\<close>

datatype go_error =
    SyntaxError string
  | UnmarshalTypeError string string string string
  | Errorf string

fun ErrorText :: "go_error \<Rightarrow> string" where
  "ErrorText (SyntaxError msg) = msg"
| "ErrorText (UnmarshalTypeError val struct field ty) =
     (if struct = [] \<and> field = []
      then ''json: cannot unmarshal '' @ val @ '' into Go value of type '' @ ty
      else ''json: cannot unmarshal '' @ val @ '' into Go struct field '' @ struct @ ''.''
             @ field @ '' of type '' @ ty)"
| "ErrorText (Errorf msg) = msg"

section \<open>Protocol envelopes (main.go)\<close>

record MCPRequest =
  reqJSONRPC :: string
  reqID :: any
  Method :: string
  Params :: RawMessage

text \<open>\<^verbatim>\<open>Code int\<close> is a machine integer, 64 bits wide on the targets the server is built for.\<close>

record MCPError =
  Code :: "64 word"
  Message :: string
  Data :: any

record MCPResponse =
  JSONRPC :: string
  ID :: any
  Result :: any
  Error :: "MCPError option"

text \<open>
  The spreadsheet client (package sheets) reaches the remote service; each of its eight
  operations is a parameter that returns Go's pair of a result and an error.
\<close>

type_synonym outcome = "any \<times> go_error option"

record Client =
  ReadSheet :: "string \<Rightarrow> string \<Rightarrow> outcome"
  WriteSheet :: "string \<Rightarrow> string \<Rightarrow> string list list \<Rightarrow> outcome"
  AppendSheet :: "string \<Rightarrow> string \<Rightarrow> string list list \<Rightarrow> outcome"
  CreateSpreadsheet :: "string \<Rightarrow> string list \<Rightarrow> outcome"
  GetSpreadsheetInfo :: "string \<Rightarrow> outcome"
  AddSheet :: "string \<Rightarrow> string \<Rightarrow> outcome"
  ClearSheet :: "string \<Rightarrow> string \<Rightarrow> outcome"
  BatchUpdate :: "string \<Rightarrow> any list \<Rightarrow> outcome"

text \<open>
  The tool handlers use \<^verbatim>\<open>json.Unmarshal\<close> on the arguments only through its outcome: an
  error, or the decoded fields that are handed to the client. These decoders and the
  \<^verbatim>\<open>%v\<close> formatting of a result are library functions, taken as parameters.
\<close>

record golib =
  UnmarshalRead :: "RawMessage \<Rightarrow> go_error + string \<times> string"
  UnmarshalWrite :: "RawMessage \<Rightarrow> go_error + string \<times> string \<times> string list list"
  UnmarshalAppend :: "RawMessage \<Rightarrow> go_error + string \<times> string \<times> string list list"
  UnmarshalCreate :: "RawMessage \<Rightarrow> go_error + string \<times> string list"
  UnmarshalInfo :: "RawMessage \<Rightarrow> go_error + string"
  UnmarshalAdd :: "RawMessage \<Rightarrow> go_error + string \<times> string"
  UnmarshalClear :: "RawMessage \<Rightarrow> go_error + string \<times> string"
  UnmarshalBatch :: "RawMessage \<Rightarrow> go_error + string \<times> any list"
  Sprintf_v :: "any \<Rightarrow> string"

record MCPServer =
  sheetsClient :: Client
  lib :: golib

definition serverName :: string where
  "serverName = ''mcp-google-sheets''"

definition serverVersion :: string where
  "serverVersion = ''1.0.0''"

section \<open>Decoding into a struct (encoding/json)\<close>

text \<open>
  \<^verbatim>\<open>json.Unmarshal\<close> fills a struct member by member, in document order. A key selects the
  field whose name it equals, or else the first field whose name it equals after folding:
  ASCII letters to upper case, and the two letters outside ASCII that fold to \<open>S\<close> and
  \<open>K\<close> (U+017F, the bytes C5 BF, and U+212A, the bytes E2 84 AA). A string field takes a
  JSON string, is left alone by \<open>null\<close> and records a type error for anything else;
  decoding goes on after a type error, and the first one is what \<^verbatim>\<open>Unmarshal\<close> returns.
\<close>

definition upperByte :: "char \<Rightarrow> char" where
  "upperByte c =
     (case map_of (zip ''abcdefghijklmnopqrstuvwxyz'' ''ABCDEFGHIJKLMNOPQRSTUVWXYZ'') c of
        Some u \<Rightarrow> u | None \<Rightarrow> c)"

fun foldName :: "string \<Rightarrow> string" where
  "foldName [] = []"
| "foldName (c # cs) =
     (if c = CHR 0xC5 \<and> take 1 cs = [CHR 0xBF] then CHR ''S'' # foldName (drop 1 cs)
      else if c = CHR 0xE2 \<and> take 2 cs = [CHR 0x84, CHR 0xAA] then CHR ''K'' # foldName (drop 2 cs)
      else upperByte c # foldName cs)"

definition match_field :: "string list \<Rightarrow> string \<Rightarrow> string option" where
  "match_field names key =
     (if key \<in> set names then Some key
      else find (\<lambda>f. foldName f = foldName key) names)"

fun json_kind :: "json \<Rightarrow> string" where
  "json_kind JNull = ''null''"
| "json_kind (JBool b) = ''bool''"
| "json_kind (JNumber n) = ''number''"
| "json_kind (JString s) = ''string''"
| "json_kind (JArray xs) = ''array''"
| "json_kind (JObject kvs) = ''object''"

definition saveError :: "go_error option \<Rightarrow> go_error option \<Rightarrow> go_error option" where
  "saveError saved err = (case saved of None \<Rightarrow> err | Some e \<Rightarrow> Some e)"

text \<open>A value stored into a string field \<open>struct.field\<close> that holds \<open>cur\<close>.\<close>

definition store_string :: "string \<Rightarrow> string \<Rightarrow> json \<Rightarrow> string \<Rightarrow> string \<times> go_error option" where
  "store_string struct field v cur =
     (case v of
        JString s \<Rightarrow> (s, None)
      | JNull \<Rightarrow> (cur, None)
      | _ \<Rightarrow> (cur, Some (UnmarshalTypeError (json_kind v) struct field ''string'')))"

section \<open>Decoding the tools/call envelope\<close>

text \<open>
  \<^verbatim>\<open>var params struct { Name string `json:"name"`; Arguments json.RawMessage `json:"arguments"` }\<close>
  starts as the zero value. The raw-message field takes any value, \<open>null\<close> too.
\<close>

record call_params =
  Name :: string
  Arguments :: RawMessage

definition zero_call_params :: call_params where
  "zero_call_params = \<lparr>Name = [], Arguments = nil_RawMessage\<rparr>"

definition call_fields :: "string list" where
  "call_fields = [''name'', ''arguments'']"

fun store_member :: "string \<times> json \<Rightarrow> call_params \<times> go_error option
    \<Rightarrow> call_params \<times> go_error option" where
  "store_member (key, v) (p, saved) =
     (case match_field call_fields key of
        None \<Rightarrow> (p, saved)
      | Some f \<Rightarrow>
          if f = ''name'' then
            (case store_string [] ''name'' v (Name p) of
               (s, err) \<Rightarrow> (p\<lparr>Name := s\<rparr>, saveError saved err))
          else (p\<lparr>Arguments := Document v\<rparr>, saved))"

fun store_members :: "(string \<times> json) list \<Rightarrow> call_params \<times> go_error option
    \<Rightarrow> call_params \<times> go_error option" where
  "store_members [] st = st"
| "store_members (m # ms) st = store_members ms (store_member m st)"

text \<open>The name Go prints for the anonymous struct, tags included.\<close>

definition tag :: "string \<Rightarrow> string" where
  "tag name = [CHR 0x22] @ ''json:'' @ [CHR 0x5C, CHR 0x22] @ name @ [CHR 0x5C, CHR 0x22, CHR 0x22]"

definition call_params_type :: string where
  "call_params_type =
     ''struct { Name string '' @ tag ''name'' @ ''; Arguments json.RawMessage ''
       @ tag ''arguments'' @ '' }''"

fun UnmarshalCall :: "RawMessage \<Rightarrow> call_params \<Rightarrow> call_params \<times> go_error option" where
  "UnmarshalCall (Malformed msg) p = (p, Some (SyntaxError msg))"
| "UnmarshalCall (Document JNull) p = (p, None)"
| "UnmarshalCall (Document (JObject ms)) p = store_members ms (p, None)"
| "UnmarshalCall (Document v) p =
     (p, Some (UnmarshalTypeError (json_kind v) [] [] call_params_type))"

section \<open>The tool handlers (main.go)\<close>

definition handleReadSheet :: "MCPServer \<Rightarrow> RawMessage \<Rightarrow> outcome" where
  "handleReadSheet s args =
     (case UnmarshalRead (lib s) args of
        Inl err \<Rightarrow> (GoNil, Some err)
      | Inr (spreadsheet_id, rng) \<Rightarrow> ReadSheet (sheetsClient s) spreadsheet_id rng)"

definition handleWriteSheet :: "MCPServer \<Rightarrow> RawMessage \<Rightarrow> outcome" where
  "handleWriteSheet s args =
     (case UnmarshalWrite (lib s) args of
        Inl err \<Rightarrow> (GoNil, Some err)
      | Inr (spreadsheet_id, rng, vals) \<Rightarrow>
          WriteSheet (sheetsClient s) spreadsheet_id rng vals)"

definition handleAppendSheet :: "MCPServer \<Rightarrow> RawMessage \<Rightarrow> outcome" where
  "handleAppendSheet s args =
     (case UnmarshalAppend (lib s) args of
        Inl err \<Rightarrow> (GoNil, Some err)
      | Inr (spreadsheet_id, rng, vals) \<Rightarrow>
          AppendSheet (sheetsClient s) spreadsheet_id rng vals)"

definition handleCreateSpreadsheet :: "MCPServer \<Rightarrow> RawMessage \<Rightarrow> outcome" where
  "handleCreateSpreadsheet s args =
     (case UnmarshalCreate (lib s) args of
        Inl err \<Rightarrow> (GoNil, Some err)
      | Inr (title, sheets) \<Rightarrow> CreateSpreadsheet (sheetsClient s) title sheets)"

definition handleGetSpreadsheetInfo :: "MCPServer \<Rightarrow> RawMessage \<Rightarrow> outcome" where
  "handleGetSpreadsheetInfo s args =
     (case UnmarshalInfo (lib s) args of
        Inl err \<Rightarrow> (GoNil, Some err)
      | Inr spreadsheet_id \<Rightarrow> GetSpreadsheetInfo (sheetsClient s) spreadsheet_id)"

definition handleAddSheet :: "MCPServer \<Rightarrow> RawMessage \<Rightarrow> outcome" where
  "handleAddSheet s args =
     (case UnmarshalAdd (lib s) args of
        Inl err \<Rightarrow> (GoNil, Some err)
      | Inr (spreadsheet_id, sheet_name) \<Rightarrow> AddSheet (sheetsClient s) spreadsheet_id sheet_name)"

definition handleClearSheet :: "MCPServer \<Rightarrow> RawMessage \<Rightarrow> outcome" where
  "handleClearSheet s args =
     (case UnmarshalClear (lib s) args of
        Inl err \<Rightarrow> (GoNil, Some err)
      | Inr (spreadsheet_id, rng) \<Rightarrow> ClearSheet (sheetsClient s) spreadsheet_id rng)"

definition handleBatchUpdate :: "MCPServer \<Rightarrow> RawMessage \<Rightarrow> outcome" where
  "handleBatchUpdate s args =
     (case UnmarshalBatch (lib s) args of
        Inl err \<Rightarrow> (GoNil, Some err)
      | Inr (spreadsheet_id, requests) \<Rightarrow> BatchUpdate (sheetsClient s) spreadsheet_id requests)"

section \<open>The tool executor (main.go, handleToolsCall)\<close>

text \<open>
  The switch on the tool name: \<open>None\<close> is its default branch, \<open>Some h\<close> the handler of a
  registered tool.
\<close>

definition tool_handler :: "string \<Rightarrow> (MCPServer \<Rightarrow> RawMessage \<Rightarrow> outcome) option" where
  "tool_handler name =
     (if name = ''read_sheet'' then Some handleReadSheet
      else if name = ''write_sheet'' then Some handleWriteSheet
      else if name = ''append_sheet'' then Some handleAppendSheet
      else if name = ''create_spreadsheet'' then Some handleCreateSpreadsheet
      else if name = ''get_spreadsheet_info'' then Some handleGetSpreadsheetInfo
      else if name = ''add_sheet'' then Some handleAddSheet
      else if name = ''clear_sheet'' then Some handleClearSheet
      else if name = ''batch_update'' then Some handleBatchUpdate
      else None)"

definition handleToolsCall :: "MCPServer \<Rightarrow> MCPRequest \<Rightarrow> MCPResponse" where
  "handleToolsCall s req =
     (case UnmarshalCall (Params req) zero_call_params of
        (params, Some err) \<Rightarrow>
          \<lparr>JSONRPC = ''2.0'', ID = reqID req, Result = GoNil,
           Error = Some \<lparr>Code = - 32602, Message = ''Invalid params'',
                         Data = GoString (ErrorText err)\<rparr>\<rparr>
      | (params, None) \<Rightarrow>
          (case tool_handler (Name params) of
             None \<Rightarrow>
               \<lparr>JSONRPC = ''2.0'', ID = reqID req, Result = GoNil,
                Error = Some \<lparr>Code = - 32601, Message = ''Tool not found: '' @ Name params,
                              Data = GoNil\<rparr>\<rparr>
           | Some handler \<Rightarrow>
               (case handler s (Arguments params) of
                  (result, Some err) \<Rightarrow>
                    \<lparr>JSONRPC = ''2.0'', ID = reqID req, Result = GoNil,
                     Error = Some \<lparr>Code = - 32000, Message = ErrorText err, Data = GoNil\<rparr>\<rparr>
                | (result, None) \<Rightarrow>
                    \<lparr>JSONRPC = ''2.0'', ID = reqID req,
                     Result = GoMap [(''content'',
                       GoSlice [GoMap [(''type'', GoString ''text''),
                                       (''text'', GoString (Sprintf_v (lib s) result))]])],
                     Error = None\<rparr>)))"

section \<open>The dispatcher (main.go)\<close>

definition handleInitialize :: "MCPServer \<Rightarrow> MCPRequest \<Rightarrow> MCPResponse" where
  "handleInitialize s req =
     \<lparr>JSONRPC = ''2.0'', ID = reqID req,
      Result = GoMap [
        (''protocolVersion'', GoString ''2024-11-05''),
        (''serverInfo'', GoMap [
          (''name'', GoString serverName),
          (''version'', GoString serverVersion)]),
        (''capabilities'', GoMap [
          (''tools'', GoMap [])])],
      Error = None\<rparr>"

text \<open>The catalog literal of \<^verbatim>\<open>handleToolsList\<close>, entry by entry.\<close>

definition tools :: any where
  "tools =
   GoSlice [
     GoMap [
       (''name'', GoString ''read_sheet''),
       (''description'', GoString ''Read data from a Google Sheet. Specify the spreadsheet ID and optional range (e.g., 'Sheet1!A1:D10'). If no range is provided, reads the entire first sheet.''),
       (''inputSchema'', GoMap [
         (''type'', GoString ''object''),
         (''properties'', GoMap [
           (''spreadsheet_id'', GoMap [
             (''type'', GoString ''string''),
             (''description'', GoString ''The ID of the Google Spreadsheet (from the URL)'')]),
           (''range'', GoMap [
             (''type'', GoString ''string''),
             (''description'', GoString ''The A1 notation range to read (e.g., 'Sheet1!A1:D10'). Optional - defaults to entire first sheet.'')])]),
         (''required'', GoSlice [GoString ''spreadsheet_id''])])],
     GoMap [
       (''name'', GoString ''write_sheet''),
       (''description'', GoString ''Write data to a Google Sheet. Specify the spreadsheet ID, range, and data as a 2D array. Data overwrites existing content in the range.''),
       (''inputSchema'', GoMap [
         (''type'', GoString ''object''),
         (''properties'', GoMap [
           (''spreadsheet_id'', GoMap [
             (''type'', GoString ''string''),
             (''description'', GoString ''The ID of the Google Spreadsheet (from the URL)'')]),
           (''range'', GoMap [
             (''type'', GoString ''string''),
             (''description'', GoString ''The A1 notation range to write to (e.g., 'Sheet1!A1:D10')'')]),
           (''values'', GoMap [
             (''type'', GoString ''array''),
             (''description'', GoString ''2D array of values to write (array of rows, each row is an array of cell values)''),
             (''items'', GoMap [
               (''type'', GoString ''array''),
               (''items'', GoMap [
                 (''type'', GoString ''string'')])])])]),
         (''required'', GoSlice [GoString ''spreadsheet_id'', GoString ''range'', GoString ''values''])])],
     GoMap [
       (''name'', GoString ''append_sheet''),
       (''description'', GoString ''Append data to a Google Sheet. Adds new rows after the last row with data in the specified range.''),
       (''inputSchema'', GoMap [
         (''type'', GoString ''object''),
         (''properties'', GoMap [
           (''spreadsheet_id'', GoMap [
             (''type'', GoString ''string''),
             (''description'', GoString ''The ID of the Google Spreadsheet (from the URL)'')]),
           (''range'', GoMap [
             (''type'', GoString ''string''),
             (''description'', GoString ''The A1 notation range (e.g., 'Sheet1!A:D' or 'Sheet1')'')]),
           (''values'', GoMap [
             (''type'', GoString ''array''),
             (''description'', GoString ''2D array of values to append (array of rows)''),
             (''items'', GoMap [
               (''type'', GoString ''array''),
               (''items'', GoMap [
                 (''type'', GoString ''string'')])])])]),
         (''required'', GoSlice [GoString ''spreadsheet_id'', GoString ''range'', GoString ''values''])])],
     GoMap [
       (''name'', GoString ''create_spreadsheet''),
       (''description'', GoString ''Create a new Google Spreadsheet with the specified title and optional sheet names.''),
       (''inputSchema'', GoMap [
         (''type'', GoString ''object''),
         (''properties'', GoMap [
           (''title'', GoMap [
             (''type'', GoString ''string''),
             (''description'', GoString ''The title of the new spreadsheet'')]),
           (''sheets'', GoMap [
             (''type'', GoString ''array''),
             (''description'', GoString ''Optional array of sheet names to create. If not provided, creates one default sheet.''),
             (''items'', GoMap [
               (''type'', GoString ''string'')])])]),
         (''required'', GoSlice [GoString ''title''])])],
     GoMap [
       (''name'', GoString ''get_spreadsheet_info''),
       (''description'', GoString ''Get metadata about a spreadsheet including title, sheets, and properties.''),
       (''inputSchema'', GoMap [
         (''type'', GoString ''object''),
         (''properties'', GoMap [
           (''spreadsheet_id'', GoMap [
             (''type'', GoString ''string''),
             (''description'', GoString ''The ID of the Google Spreadsheet (from the URL)'')])]),
         (''required'', GoSlice [GoString ''spreadsheet_id''])])],
     GoMap [
       (''name'', GoString ''add_sheet''),
       (''description'', GoString ''Add a new sheet (tab) to an existing spreadsheet.''),
       (''inputSchema'', GoMap [
         (''type'', GoString ''object''),
         (''properties'', GoMap [
           (''spreadsheet_id'', GoMap [
             (''type'', GoString ''string''),
             (''description'', GoString ''The ID of the Google Spreadsheet'')]),
           (''sheet_name'', GoMap [
             (''type'', GoString ''string''),
             (''description'', GoString ''The name for the new sheet'')])]),
         (''required'', GoSlice [GoString ''spreadsheet_id'', GoString ''sheet_name''])])],
     GoMap [
       (''name'', GoString ''clear_sheet''),
       (''description'', GoString ''Clear all data in a specified range of a Google Sheet.''),
       (''inputSchema'', GoMap [
         (''type'', GoString ''object''),
         (''properties'', GoMap [
           (''spreadsheet_id'', GoMap [
             (''type'', GoString ''string''),
             (''description'', GoString ''The ID of the Google Spreadsheet'')]),
           (''range'', GoMap [
             (''type'', GoString ''string''),
             (''description'', GoString ''The A1 notation range to clear (e.g., 'Sheet1!A1:D10' or 'Sheet1')'')])]),
         (''required'', GoSlice [GoString ''spreadsheet_id'', GoString ''range''])])],
     GoMap [
       (''name'', GoString ''batch_update''),
       (''description'', GoString ''Perform multiple update operations on a spreadsheet in a single request. Supports formatting, adding sheets, and more complex operations.''),
       (''inputSchema'', GoMap [
         (''type'', GoString ''object''),
         (''properties'', GoMap [
           (''spreadsheet_id'', GoMap [
             (''type'', GoString ''string''),
             (''description'', GoString ''The ID of the Google Spreadsheet'')]),
           (''requests'', GoMap [
             (''type'', GoString ''array''),
             (''description'', GoString ''Array of update request objects (see Google Sheets API documentation for request format)'')])]),
         (''required'', GoSlice [GoString ''spreadsheet_id'', GoString ''requests''])])]]"

definition handleToolsList :: "MCPServer \<Rightarrow> MCPRequest \<Rightarrow> MCPResponse" where
  "handleToolsList s req =
     \<lparr>JSONRPC = ''2.0'', ID = reqID req,
      Result = GoMap [(''tools'', tools)],
      Error = None\<rparr>"

definition handleRequest :: "MCPServer \<Rightarrow> MCPRequest \<Rightarrow> MCPResponse" where
  "handleRequest s req =
     (if Method req = ''initialize'' then handleInitialize s req
      else if Method req = ''tools/list'' then handleToolsList s req
      else if Method req = ''tools/call'' then handleToolsCall s req
      else if Method req = ''ping'' then
        \<lparr>JSONRPC = ''2.0'', ID = reqID req, Result = GoMap [], Error = None\<rparr>
      else
        \<lparr>JSONRPC = ''2.0'', ID = reqID req, Result = GoNil,
         Error = Some \<lparr>Code = - 32601, Message = ''Method not found: '' @ Method req,
                       Data = GoNil\<rparr>\<rparr>)"

section \<open>Encoding and decoding a response (encoding/json on MCPResponse)\<close>



















section \<open>The credentials (oauth/oauth.go)\<close>

record Config =
  ClientID :: string
  ClientSecret :: string
  RedirectURI :: string
  TokenFile :: string

text \<open>The types of the oauth2 library that the package passes around.\<close>

record oauth2_Config =
  oauth2_ClientID :: string
  oauth2_ClientSecret :: string
  RedirectURL :: string
  Scopes :: "string list"
  Endpoint :: string

record Token =
  AccessToken :: string
  TokenType :: string
  RefreshToken :: string
  Expiry :: int

datatype AuthCodeOption = AccessTypeOffline | ApprovalForce

text \<open>
  The URL that \<^verbatim>\<open>config.AuthCodeURL(state, opts...)\<close> builds, kept as the values it is
  built from; \<open>url_state\<close> is the state token in its query. The client that
  \<^verbatim>\<open>config.Client(ctx, token)\<close> builds is kept the same way.
\<close>

datatype auth_url = AuthCodeURL (url_config: oauth2_Config) (url_state: string)
  (url_opts: "AuthCodeOption list")

datatype http_Client = OAuthClient oauth2_Config "Token option"

text \<open>
  What the handshake waits for. The callback handler sends on the error channel when the
  request has no code and on the code channel otherwise; the goroutine that serves sends
  on the error channel when it cannot listen; the context may be cancelled; or nothing
  ever happens and the \<^verbatim>\<open>select\<close> blocks for good.
\<close>

datatype happening =
    CallbackRequest string
  | ListenFailed go_error
  | ContextDone
  | Nothing

datatype signal = CodeChan string | ErrChan go_error | Done

fun first_signal :: "happening \<Rightarrow> signal option" where
  "first_signal (CallbackRequest code) =
     (if code = [] then Some (ErrChan (Errorf ''no code in OAuth callback''))
      else Some (CodeChan code))"
| "first_signal (ListenFailed err) =
     Some (ErrChan (Errorf (''failed to start OAuth callback server: '' @ ErrorText err)))"
| "first_signal ContextDone = Some Done"
| "first_signal Nothing = None"

text \<open>
  The surroundings of the package: two constants of the libraries, the file system, the
  decoder of the token file, what happens during a handshake and the authorization
  server that exchanges a code.
\<close>

record world =
  SpreadsheetsScope :: string
  google_Endpoint :: string
  Open :: "string \<Rightarrow> go_error + string"
  Decode :: "string \<Rightarrow> Token \<times> go_error option"
  Dir :: "string \<Rightarrow> string"
  MkdirAll :: "string \<Rightarrow> go_error option"
  OpenFile :: "string \<Rightarrow> go_error option"
  Encode :: "Token option \<Rightarrow> go_error option"
  Incoming :: happening
  Exchange :: "oauth2_Config \<Rightarrow> string \<Rightarrow> go_error + Token"

text \<open>What a call does besides returning, in the order in which it does it.\<close>

datatype event =
    Log string
  | Println string
  | PrintAuthURL auth_url
  | HandleFunc string
  | GoListenAndServe string
  | ExchangeCall string
  | Shutdown
  | GoSaveTokenIfRefreshed
  | MkdirAllCall string
  | OpenFileCall string
  | EncodeCall "Token option"

definition GetOAuthConfig :: "world \<Rightarrow> Config \<Rightarrow> oauth2_Config" where
  "GetOAuthConfig w c =
     \<lparr>oauth2_ClientID = ClientID c, oauth2_ClientSecret = ClientSecret c,
      RedirectURL = RedirectURI c, Scopes = [SpreadsheetsScope w],
      Endpoint = google_Endpoint w\<rparr>"

definition loadToken :: "world \<Rightarrow> Config \<Rightarrow> Token option \<times> go_error option" where
  "loadToken w c =
     (case Open w (TokenFile c) of
        Inl err \<Rightarrow> (None, Some err)
      | Inr f \<Rightarrow> (case Decode w f of (token, err) \<Rightarrow> (Some token, err)))"

definition saveToken :: "world \<Rightarrow> Config \<Rightarrow> Token option \<Rightarrow> event list \<times> go_error option" where
  "saveToken w c token =
     (let dir = Dir w (TokenFile c) in
      case MkdirAll w dir of
        Some err \<Rightarrow>
          ([MkdirAllCall dir],
           Some (Errorf (''unable to create token directory: '' @ ErrorText err)))
      | None \<Rightarrow>
          (case OpenFile w (TokenFile c) of
             Some err \<Rightarrow>
               ([MkdirAllCall dir, OpenFileCall (TokenFile c)],
                Some (Errorf (''unable to create token file: '' @ ErrorText err)))
           | None \<Rightarrow>
               ([MkdirAllCall dir, OpenFileCall (TokenFile c), EncodeCall token],
                Encode w token)))"

definition saveTokenIfRefreshed :: "world \<Rightarrow> Config \<Rightarrow> http_Client \<Rightarrow> Token option \<Rightarrow> event list" where
  "saveTokenIfRefreshed w c client originalToken = []"

definition banner :: string where
  "banner = replicate 80 CHR ''=''"

text \<open>
  \<open>None\<close> is a handshake that never returns. The handler's answer to the browser is
  written by the serving goroutine and is not part of the trace.
\<close>

definition getTokenFromWeb :: "world \<Rightarrow> Config \<Rightarrow> oauth2_Config
    \<Rightarrow> (event list \<times> Token option \<times> go_error option) option" where
  "getTokenFromWeb w c config =
     (let authURL = AuthCodeURL config ''state-token'' [AccessTypeOffline, ApprovalForce];
          started =
            [HandleFunc ''/oauth/callback'', GoListenAndServe '':8080'',
             Println (CHR 0x0A # banner),
             Println ''GOOGLE OAUTH AUTHENTICATION REQUIRED'',
             Println banner,
             PrintAuthURL authURL,
             Println ''Waiting for authorization...'',
             Println (banner @ [CHR 0x0A])]
      in case first_signal (Incoming w) of
           None \<Rightarrow> None
         | Some (CodeChan code) \<Rightarrow>
             (case Exchange w config code of
                Inl err \<Rightarrow>
                  Some (started @ [ExchangeCall code, Shutdown],
                        None,
                        Some (Errorf (''unable to exchange code for token: '' @ ErrorText err)))
              | Inr token \<Rightarrow>
                  Some (started @ [ExchangeCall code, Shutdown], Some token, None))
         | Some (ErrChan err) \<Rightarrow> Some (started @ [Shutdown], None, Some err)
         | Some Done \<Rightarrow>
             Some (started @ [Shutdown], None, Some (Errorf ''context cancelled'')))"

definition GetClient :: "world \<Rightarrow> Config
    \<Rightarrow> (event list \<times> http_Client option \<times> go_error option) option" where
  "GetClient w c =
     (let config = GetOAuthConfig w c in
      case loadToken w c of
        (token, None) \<Rightarrow>
          (let client = OAuthClient config token in
           Some (GoSaveTokenIfRefreshed # saveTokenIfRefreshed w c client token,
                 Some client, None))
      | (token, Some err) \<Rightarrow>
          (case getTokenFromWeb w c config of
             None \<Rightarrow> None
           | Some (flow, token, Some err) \<Rightarrow>
               Some (Log ''No existing token found. Starting OAuth flow...'' # flow,
                     None,
                     Some (Errorf (''unable to get token from web: '' @ ErrorText err)))
           | Some (flow, token, None) \<Rightarrow>
               (case saveToken w c token of
                  (saved, Some err) \<Rightarrow>
                    Some (Log ''No existing token found. Starting OAuth flow...'' # flow @ saved
                            @ [Log (''Warning: unable to save token: '' @ ErrorText err)],
                          Some (OAuthClient config token), None)
                | (saved, None) \<Rightarrow>
                    Some (Log ''No existing token found. Starting OAuth flow...'' # flow @ saved,
                          Some (OAuthClient config token), None))))"

text \<open>The parts of a trace that the handshake alone produces.\<close>

fun handshake_event :: "event \<Rightarrow> bool" where
  "handshake_event (PrintAuthURL u) = True"
| "handshake_event (HandleFunc p) = True"
| "handshake_event (GoListenAndServe a) = True"
| "handshake_event (ExchangeCall code) = True"
| "handshake_event Shutdown = True"
| "handshake_event e = False"


section \<open>Vocabulary of the properties\<close>

text \<open>
  The failure of a registered tool, by its origin: the error of the decoder of its
  arguments, or the error of the client operation that ran on the decoded arguments.
\<close>

definition failed :: "go_error + 'a \<Rightarrow> go_error option" where
  "failed r = (case r of Inl err \<Rightarrow> Some err | Inr _ \<Rightarrow> None)"

definition argument_error :: "MCPServer \<Rightarrow> string \<Rightarrow> RawMessage \<Rightarrow> go_error option" where
  "argument_error s name args =
     (if name = ''read_sheet'' then failed (UnmarshalRead (lib s) args)
      else if name = ''write_sheet'' then failed (UnmarshalWrite (lib s) args)
      else if name = ''append_sheet'' then failed (UnmarshalAppend (lib s) args)
      else if name = ''create_spreadsheet'' then failed (UnmarshalCreate (lib s) args)
      else if name = ''get_spreadsheet_info'' then failed (UnmarshalInfo (lib s) args)
      else if name = ''add_sheet'' then failed (UnmarshalAdd (lib s) args)
      else if name = ''clear_sheet'' then failed (UnmarshalClear (lib s) args)
      else if name = ''batch_update'' then failed (UnmarshalBatch (lib s) args)
      else None)"

definition backend_error :: "MCPServer \<Rightarrow> string \<Rightarrow> RawMessage \<Rightarrow> go_error option" where
  "backend_error s name args =
     (let c = sheetsClient s in
      if name = ''read_sheet'' then
        (case UnmarshalRead (lib s) args of Inl _ \<Rightarrow> None
         | Inr (i, r) \<Rightarrow> snd (ReadSheet c i r))
      else if name = ''write_sheet'' then
        (case UnmarshalWrite (lib s) args of Inl _ \<Rightarrow> None
         | Inr (i, r, v) \<Rightarrow> snd (WriteSheet c i r v))
      else if name = ''append_sheet'' then
        (case UnmarshalAppend (lib s) args of Inl _ \<Rightarrow> None
         | Inr (i, r, v) \<Rightarrow> snd (AppendSheet c i r v))
      else if name = ''create_spreadsheet'' then
        (case UnmarshalCreate (lib s) args of Inl _ \<Rightarrow> None
         | Inr (t, n) \<Rightarrow> snd (CreateSpreadsheet c t n))
      else if name = ''get_spreadsheet_info'' then
        (case UnmarshalInfo (lib s) args of Inl _ \<Rightarrow> None
         | Inr i \<Rightarrow> snd (GetSpreadsheetInfo c i))
      else if name = ''add_sheet'' then
        (case UnmarshalAdd (lib s) args of Inl _ \<Rightarrow> None
         | Inr (i, n) \<Rightarrow> snd (AddSheet c i n))
      else if name = ''clear_sheet'' then
        (case UnmarshalClear (lib s) args of Inl _ \<Rightarrow> None
         | Inr (i, r) \<Rightarrow> snd (ClearSheet c i r))
      else if name = ''batch_update'' then
        (case UnmarshalBatch (lib s) args of Inl _ \<Rightarrow> None
         | Inr (i, q) \<Rightarrow> snd (BatchUpdate c i q))
      else None)"

text \<open>
  Reading a value behind an interface, as the tests of the catalog do: \<^verbatim>\<open>m[key]\<close> on a
  map (nil when the key is absent) and the elements of a slice.
\<close>

fun index :: "any \<Rightarrow> string \<Rightarrow> any" where
  "index (GoMap kvs) key = (case map_of kvs key of Some v \<Rightarrow> v | None \<Rightarrow> GoNil)"
| "index v key = GoNil"

definition elems :: "any \<Rightarrow> any list" where
  "elems v = (case v of GoSlice xs \<Rightarrow> xs | _ \<Rightarrow> [])"

definition required_entry :: "(string \<times> any) list \<Rightarrow> any \<Rightarrow> bool" where
  "required_entry props r = (case r of GoString k \<Rightarrow> k \<in> set (map fst props) | _ \<Rightarrow> False)"

definition valid_descriptor :: "any \<Rightarrow> bool" where
  "valid_descriptor d =
     (let schema = index d ''inputSchema'' in
      (case index d ''description'' of GoString desc \<Rightarrow> desc \<noteq> [] | _ \<Rightarrow> False) \<and>
      index schema ''type'' = GoString ''object'' \<and>
      (case index schema ''properties'' of
         GoMap props \<Rightarrow>
           props \<noteq> [] \<and>
           (case index schema ''required'' of
              GoSlice req \<Rightarrow> list_all (required_entry props) req
            | _ \<Rightarrow> False)
       | _ \<Rightarrow> False))"

section \<open>Instances on which the model is run\<close>

text \<open>
  A stand-in for the library's decoders of tool arguments: the string fields of a struct
  are decoded as above; its slice fields are left empty. The stand-in for \<^verbatim>\<open>%v\<close> prints
  a string as it is and \<^verbatim>\<open><nil>\<close> otherwise.
\<close>

fun store_text_member :: "string list \<Rightarrow> (string \<Rightarrow> string) \<times> go_error option
    \<Rightarrow> string \<times> json \<Rightarrow> (string \<Rightarrow> string) \<times> go_error option" where
  "store_text_member names (p, saved) (key, v) =
     (case match_field names key of
        None \<Rightarrow> (p, saved)
      | Some f \<Rightarrow>
          (case store_string [] f v (p f) of (s, err) \<Rightarrow> (p(f := s), saveError saved err)))"

fun UnmarshalTexts :: "string list \<Rightarrow> RawMessage \<Rightarrow> go_error + (string \<Rightarrow> string)" where
  "UnmarshalTexts names (Malformed msg) = Inl (SyntaxError msg)"
| "UnmarshalTexts names (Document JNull) = Inr (\<lambda>f. [])"
| "UnmarshalTexts names (Document (JObject ms)) =
     (case foldl (store_text_member names) (\<lambda>f. [], None) ms of
        (p, None) \<Rightarrow> Inr p
      | (p, Some err) \<Rightarrow> Inl err)"
| "UnmarshalTexts names (Document v) = Inl (UnmarshalTypeError (json_kind v) [] [] ''struct'')"

definition texts_lib :: golib where
  "texts_lib =
     \<lparr>UnmarshalRead = (\<lambda>raw. map_sum id (\<lambda>p. (p ''spreadsheet_id'', p ''range''))
          (UnmarshalTexts [''spreadsheet_id'', ''range''] raw)),
      UnmarshalWrite = (\<lambda>raw. map_sum id (\<lambda>p. (p ''spreadsheet_id'', p ''range'', []))
          (UnmarshalTexts [''spreadsheet_id'', ''range''] raw)),
      UnmarshalAppend = (\<lambda>raw. map_sum id (\<lambda>p. (p ''spreadsheet_id'', p ''range'', []))
          (UnmarshalTexts [''spreadsheet_id'', ''range''] raw)),
      UnmarshalCreate = (\<lambda>raw. map_sum id (\<lambda>p. (p ''title'', []))
          (UnmarshalTexts [''title''] raw)),
      UnmarshalInfo = (\<lambda>raw. map_sum id (\<lambda>p. p ''spreadsheet_id'')
          (UnmarshalTexts [''spreadsheet_id''] raw)),
      UnmarshalAdd = (\<lambda>raw. map_sum id (\<lambda>p. (p ''spreadsheet_id'', p ''sheet_name''))
          (UnmarshalTexts [''spreadsheet_id'', ''sheet_name''] raw)),
      UnmarshalClear = (\<lambda>raw. map_sum id (\<lambda>p. (p ''spreadsheet_id'', p ''range''))
          (UnmarshalTexts [''spreadsheet_id'', ''range''] raw)),
      UnmarshalBatch = (\<lambda>raw. map_sum id (\<lambda>p. (p ''spreadsheet_id'', []))
          (UnmarshalTexts [''spreadsheet_id''] raw)),
      Sprintf_v = (\<lambda>v. case v of GoString s \<Rightarrow> s | _ \<Rightarrow> ''<nil>'')\<rparr>"

text \<open>A client whose remote service cannot be reached: every operation fails.\<close>

definition offline_client :: Client where
  "offline_client =
     \<lparr>ReadSheet = (\<lambda>i r.
        (GoNil, Some (Errorf ''unable to retrieve data from sheet: connection refused''))),
      WriteSheet = (\<lambda>i r v.
        (GoNil, Some (Errorf ''unable to write data to sheet: connection refused''))),
      AppendSheet = (\<lambda>i r v.
        (GoNil, Some (Errorf ''unable to append data to sheet: connection refused''))),
      CreateSpreadsheet = (\<lambda>t n.
        (GoNil, Some (Errorf ''unable to create spreadsheet: connection refused''))),
      GetSpreadsheetInfo = (\<lambda>i.
        (GoNil, Some (Errorf ''unable to retrieve spreadsheet info: connection refused''))),
      AddSheet = (\<lambda>i n.
        (GoNil, Some (Errorf ''unable to add sheet: connection refused''))),
      ClearSheet = (\<lambda>i r.
        (GoNil, Some (Errorf ''unable to clear sheet: connection refused''))),
      BatchUpdate = (\<lambda>i q.
        (GoNil, Some (Errorf ''unable to batch update: connection refused'')))\<rparr>"

definition offline_server :: MCPServer where
  "offline_server = \<lparr>sheetsClient = offline_client, lib = texts_lib\<rparr>"

definition call_request :: "any \<Rightarrow> json \<Rightarrow> MCPRequest" where
  "call_request i params =
     \<lparr>reqJSONRPC = ''2.0'', reqID = i, Method = ''tools/call'', Params = Document params\<rparr>"

text \<open>
  The configuration of the package's tests, a world without a token file in which the
  given thing happens and the authorization server answers every code, and the same world
  with a stored token.
\<close>

definition test_config :: Config where
  "test_config =
     \<lparr>ClientID = ''test-client-id'', ClientSecret = ''test-client-secret'',
      RedirectURI = ''http://localhost:8080/oauth/callback'', TokenFile = ''token.json''\<rparr>"

definition test_token :: Token where
  "test_token =
     \<lparr>AccessToken = ''test-access-token'', TokenType = ''Bearer'',
      RefreshToken = ''test-refresh-token'', Expiry = 0\<rparr>"

definition fresh_world :: "happening \<Rightarrow> world" where
  "fresh_world h =
     \<lparr>SpreadsheetsScope = ''https://www.googleapis.com/auth/spreadsheets'',
      google_Endpoint = ''https://accounts.google.com/o/oauth2/auth'',
      Open = (\<lambda>path. Inl (Errorf (''open '' @ path @ '': no such file or directory''))),
      Decode = (\<lambda>f. (\<lparr>AccessToken = [], TokenType = [], RefreshToken = [], Expiry = 0\<rparr>,
                      Some (SyntaxError ''EOF''))),
      Dir = (\<lambda>path. ''.''),
      MkdirAll = (\<lambda>dir. None),
      OpenFile = (\<lambda>path. None),
      Encode = (\<lambda>token. None),
      Incoming = h,
      Exchange = (\<lambda>config code. Inr test_token)\<rparr>"

definition stored_world :: world where
  "stored_world =
     (fresh_world Nothing)\<lparr>Open := (\<lambda>path. Inr ''stored''), Decode := (\<lambda>f. (test_token, None))\<rparr>"

section \<open>Properties of the dispatcher\<close>

lemmas tool_handlers_def =
  handleReadSheet_def handleWriteSheet_def handleAppendSheet_def handleCreateSpreadsheet_def
  handleGetSpreadsheetInfo_def handleAddSheet_def handleClearSheet_def handleBatchUpdate_def

lemmas offline_defs =
  offline_server_def offline_client_def texts_lib_def call_request_def



text \<open>
  C3. A request whose method is none of initialize, tools/list, tools/call and ping is
  answered with the error -32601 and the message "Method not found: " followed by the
  method as it was sent.
\<close>

theorem method_not_found:
  assumes "Method req \<notin> {''initialize'', ''tools/list'', ''tools/call'', ''ping''}"
  shows "handleRequest s req =
     \<lparr>JSONRPC = ''2.0'', ID = reqID req, Result = GoNil,
      Error = Some \<lparr>Code = - 32601, Message = ''Method not found: '' @ Method req,
                    Data = GoNil\<rparr>\<rparr>"
  using assms by (simp add: handleRequest_def)

theorem method_not_found_witness:
  "''Ping'' \<notin> {''initialize'', ''tools/list'', ''tools/call'', ''ping''}
   \<and> handleRequest offline_server
        \<lparr>reqJSONRPC = ''2.0'', reqID = GoString ''abc-123'', Method = ''Ping'',
         Params = nil_RawMessage\<rparr>
     = \<lparr>JSONRPC = ''2.0'', ID = GoString ''abc-123'', Result = GoNil,
        Error = Some \<lparr>Code = - 32601, Message = ''Method not found: Ping'', Data = GoNil\<rparr>\<rparr>"
  using method_not_found [of "\<lparr>reqJSONRPC = ''2.0'', reqID = GoString ''abc-123'',
      Method = ''Ping'', Params = nil_RawMessage\<rparr>" offline_server]
  by simp

text \<open>
  C4. A tools/call request whose parameters decode to a name and arguments, the name
  being none of the eight registered ones, is answered with the error -32601 and the
  message "Tool not found: " followed by the name.
\<close>

theorem tool_not_found:
  assumes "Method req = ''tools/call''"
    and "UnmarshalCall (Params req) zero_call_params = (params, None)"
    and "Name params \<notin> {''read_sheet'', ''write_sheet'', ''append_sheet'',
           ''create_spreadsheet'', ''get_spreadsheet_info'', ''add_sheet'', ''clear_sheet'',
           ''batch_update''}"
  shows "handleRequest s req =
     \<lparr>JSONRPC = ''2.0'', ID = reqID req, Result = GoNil,
      Error = Some \<lparr>Code = - 32601, Message = ''Tool not found: '' @ Name params,
                    Data = GoNil\<rparr>\<rparr>"
proof -
  have "tool_handler (Name params) = None"
    using assms(3) by (simp add: tool_handler_def)
  then show ?thesis
    using assms(1,2) by (simp add: handleRequest_def handleToolsCall_def)
qed

lemma decode_nonexistent_tool:
  "UnmarshalCall (Document (JObject [(''name'', JString ''nonexistent_tool''),
       (''arguments'', JObject [])])) zero_call_params
     = (\<lparr>Name = ''nonexistent_tool'', Arguments = Document (JObject [])\<rparr>, None)"
  by (simp add: zero_call_params_def match_field_def call_fields_def store_string_def
      saveError_def)

theorem tool_not_found_witness:
  "handleRequest offline_server (call_request (GoFloat64 7)
      (JObject [(''name'', JString ''nonexistent_tool''), (''arguments'', JObject [])]))
     = \<lparr>JSONRPC = ''2.0'', ID = GoFloat64 7, Result = GoNil,
        Error = Some \<lparr>Code = - 32601, Message = ''Tool not found: nonexistent_tool'',
                      Data = GoNil\<rparr>\<rparr>"
  using tool_not_found [of "call_request (GoFloat64 7)
      (JObject [(''name'', JString ''nonexistent_tool''), (''arguments'', JObject [])])"
      "\<lparr>Name = ''nonexistent_tool'', Arguments = Document (JObject [])\<rparr>" offline_server]
    decode_nonexistent_tool
  by (simp add: call_request_def)

lemma handler_error:
  assumes "tool_handler name = Some h"
    and "argument_error s name args = Some err \<or> backend_error s name args = Some err"
  shows "snd (h s args) = Some err"
  using assms
  by (auto simp add: tool_handler_def failed_def argument_error_def backend_error_def
      tool_handlers_def split: if_splits sum.splits prod.splits)

text \<open>
  C5. When a tools/call request names a registered tool and the tool fails, because its
  arguments do not decode or because the client operation fails, the answer is the error
  -32000 with the text of that failure as its message and no data; so a failure to decode
  the arguments is never answered with -32602.
\<close>

theorem tool_failure_is_execution_failure:
  assumes "Method req = ''tools/call''"
    and "UnmarshalCall (Params req) zero_call_params = (params, None)"
    and "Name params \<in> {''read_sheet'', ''write_sheet'', ''append_sheet'',
           ''create_spreadsheet'', ''get_spreadsheet_info'', ''add_sheet'', ''clear_sheet'',
           ''batch_update''}"
    and "argument_error s (Name params) (Arguments params) = Some err
         \<or> backend_error s (Name params) (Arguments params) = Some err"
  shows "handleRequest s req =
     \<lparr>JSONRPC = ''2.0'', ID = reqID req, Result = GoNil,
      Error = Some \<lparr>Code = - 32000, Message = ErrorText err, Data = GoNil\<rparr>\<rparr>"
proof -
  obtain h where h: "tool_handler (Name params) = Some h"
    using assms(3) by (auto simp add: tool_handler_def)
  have "snd (h s (Arguments params)) = Some err"
    using handler_error [OF h assms(4)] .
  then obtain r where "h s (Arguments params) = (r, Some err)"
    by (cases "h s (Arguments params)") simp
  then show ?thesis
    using assms(1,2) h by (simp add: handleRequest_def handleToolsCall_def)
qed

lemma decode_read_without_arguments:
  "UnmarshalCall (Document (JObject [(''name'', JString ''read_sheet'')])) zero_call_params
     = (\<lparr>Name = ''read_sheet'', Arguments = nil_RawMessage\<rparr>, None)"
  by (simp add: zero_call_params_def match_field_def call_fields_def store_string_def
      saveError_def)

lemma decode_read_test_id:
  "UnmarshalCall (Document (JObject [(''name'', JString ''read_sheet''),
       (''arguments'', JObject [(''spreadsheet_id'', JString ''test-id'')])])) zero_call_params
     = (\<lparr>Name = ''read_sheet'',
         Arguments = Document (JObject [(''spreadsheet_id'', JString ''test-id'')])\<rparr>, None)"
  by (simp add: zero_call_params_def match_field_def call_fields_def store_string_def
      saveError_def)

lemma offline_read_argument_error:
  "argument_error offline_server ''read_sheet'' nil_RawMessage
     = Some (SyntaxError ''unexpected end of JSON input'')"
  by (simp add: argument_error_def failed_def offline_defs nil_RawMessage_def)

lemma offline_read_backend_error:
  "backend_error offline_server ''read_sheet''
      (Document (JObject [(''spreadsheet_id'', JString ''test-id'')]))
     = Some (Errorf ''unable to retrieve data from sheet: connection refused'')"
  by (simp add: backend_error_def offline_defs match_field_def store_string_def saveError_def)

theorem tool_failure_is_execution_failure_witness:
  "handleRequest offline_server (call_request (GoFloat64 8)
      (JObject [(''name'', JString ''read_sheet'')]))
     = \<lparr>JSONRPC = ''2.0'', ID = GoFloat64 8, Result = GoNil,
        Error = Some \<lparr>Code = - 32000, Message = ''unexpected end of JSON input'',
                      Data = GoNil\<rparr>\<rparr>
   \<and> handleRequest offline_server (call_request (GoFloat64 8)
      (JObject [(''name'', JString ''read_sheet''),
                (''arguments'', JObject [(''spreadsheet_id'', JString ''test-id'')])]))
     = \<lparr>JSONRPC = ''2.0'', ID = GoFloat64 8, Result = GoNil,
        Error = Some \<lparr>Code = - 32000,
                      Message = ''unable to retrieve data from sheet: connection refused'',
                      Data = GoNil\<rparr>\<rparr>"
proof
  show "handleRequest offline_server (call_request (GoFloat64 8)
      (JObject [(''name'', JString ''read_sheet'')]))
     = \<lparr>JSONRPC = ''2.0'', ID = GoFloat64 8, Result = GoNil,
        Error = Some \<lparr>Code = - 32000, Message = ''unexpected end of JSON input'',
                      Data = GoNil\<rparr>\<rparr>"
    using tool_failure_is_execution_failure [of "call_request (GoFloat64 8)
        (JObject [(''name'', JString ''read_sheet'')])"
        "\<lparr>Name = ''read_sheet'', Arguments = nil_RawMessage\<rparr>" offline_server
        "SyntaxError ''unexpected end of JSON input''"]
      decode_read_without_arguments offline_read_argument_error
    by (simp add: call_request_def)
  show "handleRequest offline_server (call_request (GoFloat64 8)
      (JObject [(''name'', JString ''read_sheet''),
                (''arguments'', JObject [(''spreadsheet_id'', JString ''test-id'')])]))
     = \<lparr>JSONRPC = ''2.0'', ID = GoFloat64 8, Result = GoNil,
        Error = Some \<lparr>Code = - 32000,
                      Message = ''unable to retrieve data from sheet: connection refused'',
                      Data = GoNil\<rparr>\<rparr>"
    using tool_failure_is_execution_failure [of "call_request (GoFloat64 8)
        (JObject [(''name'', JString ''read_sheet''),
                  (''arguments'', JObject [(''spreadsheet_id'', JString ''test-id'')])])"
        "\<lparr>Name = ''read_sheet'',
          Arguments = Document (JObject [(''spreadsheet_id'', JString ''test-id'')])\<rparr>"
        offline_server
        "Errorf ''unable to retrieve data from sheet: connection refused''"]
      decode_read_test_id offline_read_backend_error
    by (simp add: call_request_def)
qed

lemma store_members_empty_name:
  assumes "\<forall>m \<in> set ms. match_field call_fields (fst m) = Some ''name'' \<longrightarrow> snd m = JString []"
    and "Name p = []"
  shows "Name (fst (store_members ms (p, None))) = [] \<and> snd (store_members ms (p, None)) = None"
  using assms
proof (induction ms arbitrary: p)
  case Nil
  then show ?case by simp
next
  case (Cons m ms)
  obtain k v where m: "m = (k, v)" by (cases m)
  show ?case
  proof (cases "match_field call_fields k")
    case None
    then show ?thesis using Cons m by simp
  next
    case (Some f)
    show ?thesis
    proof (cases "f = ''name''")
      case True
      with Some Cons.prems m have "v = JString []" by simp
      with Some True m Cons show ?thesis
        by (simp add: store_string_def saveError_def)
    next
      case False
      with Some m Cons show ?thesis by simp
    qed
  qed
qed

text \<open>
  C10. A tools/call request whose parameters are an object in which every member that
  binds the name field (there may be none) holds the empty string is answered as a tool
  that was not found: the error -32601 with the message "Tool not found: " and nothing
  after it, not the error -32602.
\<close>

theorem missing_name_is_tool_not_found:
  assumes "Method req = ''tools/call''"
    and "Params req = Document (JObject ms)"
    and "\<forall>m \<in> set ms. match_field call_fields (fst m) = Some ''name'' \<longrightarrow> snd m = JString []"
  shows "handleRequest s req =
     \<lparr>JSONRPC = ''2.0'', ID = reqID req, Result = GoNil,
      Error = Some \<lparr>Code = - 32601, Message = ''Tool not found: '', Data = GoNil\<rparr>\<rparr>"
proof -
  obtain p e where pe: "store_members ms (zero_call_params, None) = (p, e)"
    by (cases "store_members ms (zero_call_params, None)")
  have "Name p = [] \<and> e = None"
    using store_members_empty_name [OF assms(3), of zero_call_params] pe
    by (simp add: zero_call_params_def)
  then show ?thesis
    using assms(1,2) pe
    by (simp add: handleRequest_def handleToolsCall_def tool_handler_def)
qed

theorem missing_name_is_tool_not_found_witness:
  "handleRequest offline_server (call_request (GoFloat64 9)
      (JObject [(''arguments'', JObject [(''spreadsheet_id'', JString ''test-id'')])]))
     = \<lparr>JSONRPC = ''2.0'', ID = GoFloat64 9, Result = GoNil,
        Error = Some \<lparr>Code = - 32601, Message = ''Tool not found: '', Data = GoNil\<rparr>\<rparr>
   \<and> handleRequest offline_server (call_request (GoFloat64 9)
      (JObject [(''name'', JString [])]))
     = \<lparr>JSONRPC = ''2.0'', ID = GoFloat64 9, Result = GoNil,
        Error = Some \<lparr>Code = - 32601, Message = ''Tool not found: '', Data = GoNil\<rparr>\<rparr>"
  using missing_name_is_tool_not_found [of "call_request (GoFloat64 9)
      (JObject [(''arguments'', JObject [(''spreadsheet_id'', JString ''test-id'')])])"
      "[(''arguments'', JObject [(''spreadsheet_id'', JString ''test-id'')])]" offline_server]
    missing_name_is_tool_not_found [of "call_request (GoFloat64 9)
      (JObject [(''name'', JString [])])" "[(''name'', JString [])]" offline_server]
  by (simp add: call_request_def match_field_def call_fields_def)

lemma tools_valid: "list_all valid_descriptor (elems tools)"
  by (simp add: tools_def elems_def valid_descriptor_def required_entry_def)

lemma tools_names:
  "map (\<lambda>d. index d ''name'') (elems tools) =
     [GoString ''read_sheet'', GoString ''write_sheet'', GoString ''append_sheet'',
      GoString ''create_spreadsheet'', GoString ''get_spreadsheet_info'',
      GoString ''add_sheet'', GoString ''clear_sheet'', GoString ''batch_update'']"
  by (simp add: tools_def elems_def)

lemma tools_slice: "tools = GoSlice (elems tools)"
  by (simp add: tools_def elems_def)

lemma required_entryD:
  "required_entry props r \<Longrightarrow> \<exists>k. r = GoString k \<and> k \<in> fst ` set props"
  by (cases r) (simp_all add: required_entry_def)

lemma valid_descriptorD:
  assumes "valid_descriptor d"
  shows "\<exists>desc props req.
      index d ''description'' = GoString desc \<and> desc \<noteq> [] \<and>
      index (index d ''inputSchema'') ''type'' = GoString ''object'' \<and>
      index (index d ''inputSchema'') ''properties'' = GoMap props \<and> props \<noteq> [] \<and>
      index (index d ''inputSchema'') ''required'' = GoSlice req \<and>
      (\<forall>r \<in> set req. \<exists>k. r = GoString k \<and> k \<in> fst ` set props)"
proof -
  obtain desc where desc: "index d ''description'' = GoString desc" "desc \<noteq> []"
    using assms by (auto simp add: valid_descriptor_def Let_def split: any.splits)
  have ty: "index (index d ''inputSchema'') ''type'' = GoString ''object''"
    using assms by (simp add: valid_descriptor_def Let_def)
  obtain props where props:
    "index (index d ''inputSchema'') ''properties'' = GoMap props" "props \<noteq> []"
    using assms by (auto simp add: valid_descriptor_def Let_def split: any.splits)
  obtain req where req: "index (index d ''inputSchema'') ''required'' = GoSlice req"
    "list_all (required_entry props) req"
    using assms props(1) by (auto simp add: valid_descriptor_def Let_def split: any.splits)
  have "\<forall>r \<in> set req. \<exists>k. r = GoString k \<and> k \<in> fst ` set props"
    using req(2) required_entryD by (auto simp add: list_all_iff)
  with desc ty props req(1) show ?thesis by blast
qed

text \<open>
  C2. A tools/list request is answered with the catalog: eight descriptors, named
  read_sheet, write_sheet, append_sheet, create_spreadsheet, get_spreadsheet_info,
  add_sheet, clear_sheet and batch_update in this order, each with a description that is
  not empty, a schema of type "object", a properties map that is not empty and a required
  list whose entries are keys of that map.
\<close>

theorem tools_list_catalog:
  assumes "Method req = ''tools/list''"
  shows "\<exists>ds. handleRequest s req =
        \<lparr>JSONRPC = ''2.0'', ID = reqID req, Result = GoMap [(''tools'', GoSlice ds)],
         Error = None\<rparr>
      \<and> length ds = 8
      \<and> map (\<lambda>d. index d ''name'') ds =
          [GoString ''read_sheet'', GoString ''write_sheet'', GoString ''append_sheet'',
           GoString ''create_spreadsheet'', GoString ''get_spreadsheet_info'',
           GoString ''add_sheet'', GoString ''clear_sheet'', GoString ''batch_update'']
      \<and> (\<forall>d \<in> set ds. \<exists>desc props req.
            index d ''description'' = GoString desc \<and> desc \<noteq> [] \<and>
            index (index d ''inputSchema'') ''type'' = GoString ''object'' \<and>
            index (index d ''inputSchema'') ''properties'' = GoMap props \<and> props \<noteq> [] \<and>
            index (index d ''inputSchema'') ''required'' = GoSlice req \<and>
            (\<forall>r \<in> set req. \<exists>k. r = GoString k \<and> k \<in> fst ` set props))"
proof -
  have r: "handleRequest s req =
        \<lparr>JSONRPC = ''2.0'', ID = reqID req, Result = GoMap [(''tools'', GoSlice (elems tools))],
         Error = None\<rparr>"
    using assms tools_slice by (simp add: handleRequest_def handleToolsList_def)
  have n: "map (\<lambda>d. index d ''name'') (elems tools) =
          [GoString ''read_sheet'', GoString ''write_sheet'', GoString ''append_sheet'',
           GoString ''create_spreadsheet'', GoString ''get_spreadsheet_info'',
           GoString ''add_sheet'', GoString ''clear_sheet'', GoString ''batch_update'']"
    by (rule tools_names)
  have l: "length (elems tools) = 8"
    using arg_cong [OF n, of length] by simp
  have v: "\<forall>d \<in> set (elems tools). \<exists>desc props req.
            index d ''description'' = GoString desc \<and> desc \<noteq> [] \<and>
            index (index d ''inputSchema'') ''type'' = GoString ''object'' \<and>
            index (index d ''inputSchema'') ''properties'' = GoMap props \<and> props \<noteq> [] \<and>
            index (index d ''inputSchema'') ''required'' = GoSlice req \<and>
            (\<forall>r \<in> set req. \<exists>k. r = GoString k \<and> k \<in> fst ` set props)"
  proof
    fix d assume "d \<in> set (elems tools)"
    then have "valid_descriptor d"
      using tools_valid by (simp add: list_all_iff)
    then show "\<exists>desc props req.
            index d ''description'' = GoString desc \<and> desc \<noteq> [] \<and>
            index (index d ''inputSchema'') ''type'' = GoString ''object'' \<and>
            index (index d ''inputSchema'') ''properties'' = GoMap props \<and> props \<noteq> [] \<and>
            index (index d ''inputSchema'') ''required'' = GoSlice req \<and>
            (\<forall>r \<in> set req. \<exists>k. r = GoString k \<and> k \<in> fst ` set props)"
      by (rule valid_descriptorD)
  qed
  show ?thesis
    by (rule exI [of _ "elems tools"]) (intro conjI r n l v)
qed

theorem tools_list_catalog_witness:
  "\<exists>ds. handleRequest offline_server
        \<lparr>reqJSONRPC = ''2.0'', reqID = GoFloat64 2, Method = ''tools/list'',
         Params = nil_RawMessage\<rparr> =
        \<lparr>JSONRPC = ''2.0'', ID = GoFloat64 2, Result = GoMap [(''tools'', GoSlice ds)],
         Error = None\<rparr>
      \<and> length ds = 8
      \<and> map (\<lambda>d. index d ''name'') ds =
          [GoString ''read_sheet'', GoString ''write_sheet'', GoString ''append_sheet'',
           GoString ''create_spreadsheet'', GoString ''get_spreadsheet_info'',
           GoString ''add_sheet'', GoString ''clear_sheet'', GoString ''batch_update'']
      \<and> (\<forall>d \<in> set ds. \<exists>desc props req.
            index d ''description'' = GoString desc \<and> desc \<noteq> [] \<and>
            index (index d ''inputSchema'') ''type'' = GoString ''object'' \<and>
            index (index d ''inputSchema'') ''properties'' = GoMap props \<and> props \<noteq> [] \<and>
            index (index d ''inputSchema'') ''required'' = GoSlice req \<and>
            (\<forall>r \<in> set req. \<exists>k. r = GoString k \<and> k \<in> fst ` set props))"
  using tools_list_catalog [of "\<lparr>reqJSONRPC = ''2.0'', reqID = GoFloat64 2,
      Method = ''tools/list'', Params = nil_RawMessage\<rparr>" offline_server]
  by simp

section \<open>Properties of the response encoding\<close>







section \<open>Properties of the credentials\<close>




text \<open>
  C8. On each path that ends a handshake (a callback with a code, whether the exchange
  succeeds or fails, a callback without a code, a listener that cannot start, a cancelled
  context) the handshake returns, and the last thing it does before is to shut the
  listener down that it started.
\<close>

theorem handshake_shuts_listener_down:
  assumes "Incoming w \<noteq> Nothing"
  shows "\<exists>before res. getTokenFromWeb w c config = Some (before @ [Shutdown], res)
     \<and> GoListenAndServe '':8080'' \<in> set before \<and> Shutdown \<notin> set before"
proof (cases "Incoming w")
  case (CallbackRequest code)
  show ?thesis
  proof (cases "code = []")
    case True
    with CallbackRequest show ?thesis
      by (simp add: getTokenFromWeb_def Let_def)
  next
    case False
    with CallbackRequest show ?thesis
      by (cases "Exchange w config code") (simp_all add: getTokenFromWeb_def Let_def)
  qed
next
  case (ListenFailed err)
  then show ?thesis by (simp add: getTokenFromWeb_def Let_def)
next
  case ContextDone
  then show ?thesis by (simp add: getTokenFromWeb_def Let_def)
next
  case Nothing
  with assms show ?thesis by simp
qed

theorem handshake_shuts_listener_down_witness:
  "Incoming (fresh_world (CallbackRequest ''code-A'')) \<noteq> Nothing
   \<and> (\<exists>before. getTokenFromWeb (fresh_world (CallbackRequest ''code-A'')) test_config
          (GetOAuthConfig (fresh_world (CallbackRequest ''code-A'')) test_config)
        = Some (before @ [Shutdown], Some test_token, None)
      \<and> GoListenAndServe '':8080'' \<in> set before \<and> Shutdown \<notin> set before)"
  using handshake_shuts_listener_down [of "fresh_world (CallbackRequest ''code-A'')" test_config
      "GetOAuthConfig (fresh_world (CallbackRequest ''code-A'')) test_config"]
  by (auto simp add: getTokenFromWeb_def Let_def fresh_world_def)

text \<open>
  C9. When the stored token loads without an error, GetClient returns a client built from
  it and does nothing of the handshake: no handler is registered, no listener started, no
  authorization URL printed.
\<close>

theorem stored_token_skips_handshake:
  assumes "loadToken w c = (token, None)"
  shows "\<exists>tr. GetClient w c = Some (tr, Some (OAuthClient (GetOAuthConfig w c) token), None)
     \<and> filter handshake_event tr = []"
  using assms by (simp add: GetClient_def Let_def saveTokenIfRefreshed_def)

theorem stored_token_skips_handshake_witness:
  "loadToken stored_world test_config = (Some test_token, None)
   \<and> GetClient stored_world test_config
     = Some ([GoSaveTokenIfRefreshed],
             Some (OAuthClient (GetOAuthConfig stored_world test_config) (Some test_token)),
             None)"
proof -
  have l: "loadToken stored_world test_config = (Some test_token, None)"
    by (simp add: loadToken_def stored_world_def fresh_world_def)
  show ?thesis
    using l stored_token_skips_handshake [OF l]
    by (auto simp add: GetClient_def Let_def saveTokenIfRefreshed_def)
qed

end
